theory Spec2Isabelle
  imports Main "HOL-Library.AList" "HOL-Library.Product_Lexorder"
begin

chapter \<open>A database-backed items API: backend selection, availability gate, diagnostic log\<close>

text \<open>
  The development embeds the Python modules \<^verbatim>\<open>src/config.py\<close>, \<^verbatim>\<open>src/db_logger.py\<close>,
  \<^verbatim>\<open>src/db.py\<close> and the request gate of \<^verbatim>\<open>src/app.py\<close>. Pure functions become HOL
  functions; code that touches module globals, the clock, standard output or a database
  driver is a function from a \<open>world\<close> to a result and the next \<open>world\<close>, where the result
  is either a raised exception (\<open>Inl\<close>) or a returned value (\<open>Inr\<close>).
\<close>

section \<open>Python strings and integers\<close>

text \<open>
  A Python \<^verbatim>\<open>str\<close> is a \<open>string\<close>. Characters up to \<open>0x7F\<close> are ASCII; larger ones stand
  for the bytes of UTF-8 encoded text and are left alone by \<open>str_strip\<close> and \<open>str_upper\<close>
  (Python's Unicode-aware versions differ from these on non-ASCII text only).
\<close>

definition isspace :: "char \<Rightarrow> bool" where
  \<comment> \<open>\<^verbatim>\<open>str.isspace\<close> on ASCII: tab, LF, VT, FF, CR, the separators FS, GS, RS, US, and space\<close>
  "isspace c \<longleftrightarrow> c \<in> set [CHR 0x09, CHR 0x0A, CHR 0x0B, CHR 0x0C, CHR 0x0D,
                          CHR 0x1C, CHR 0x1D, CHR 0x1E, CHR 0x1F, CHR 0x20]"

definition str_strip :: "string \<Rightarrow> string" where
  \<comment> \<open>\<^verbatim>\<open>s.strip()\<close>\<close>
  "str_strip s = rev (dropWhile isspace (rev (dropWhile isspace s)))"

definition upper_char :: "char \<Rightarrow> char" where
  "upper_char c =
     (case map_of (zip ''abcdefghijklmnopqrstuvwxyz'' ''ABCDEFGHIJKLMNOPQRSTUVWXYZ'') c of
        Some u \<Rightarrow> u
      | None \<Rightarrow> c)"

definition str_upper :: "string \<Rightarrow> string" where
  \<comment> \<open>\<^verbatim>\<open>s.upper()\<close>\<close>
  "str_upper s = map upper_char s"

definition is_digit :: "char \<Rightarrow> bool" where
  "is_digit c \<longleftrightarrow> c \<in> set ''0123456789''"

definition digit_val :: "char \<Rightarrow> nat" where
  "digit_val c = of_char c - 48"

definition int_space :: "char \<Rightarrow> bool" where
  \<comment> \<open>the whitespace \<^verbatim>\<open>int()\<close> skips around an ASCII literal: tab, LF, VT, FF, CR and space\<close>
  "int_space c \<longleftrightarrow> c \<in> set [CHR 0x09, CHR 0x0A, CHR 0x0B, CHR 0x0C, CHR 0x0D, CHR 0x20]"

fun valid_digits :: "string \<Rightarrow> bool" where
  \<comment> \<open>a digit, then digits each optionally preceded by one underscore\<close>
  "valid_digits [] = False"
| "valid_digits [c] = is_digit c"
| "valid_digits (c # d # cs) =
     (is_digit c \<and> (if d = CHR ''_'' then valid_digits cs else valid_digits (d # cs)))"

definition MAX_STR_DIGITS :: nat where
  \<comment> \<open>CPython's default limit on the digits of a decimal literal passed to \<^verbatim>\<open>int()\<close>\<close>
  "MAX_STR_DIGITS = 4300"

definition py_int :: "string \<Rightarrow> int option" where
  \<comment> \<open>\<^verbatim>\<open>int(s)\<close> for a \<^verbatim>\<open>str\<close>; \<open>None\<close> stands for the \<^verbatim>\<open>ValueError\<close> it raises\<close>
  "py_int s =
     (let t = rev (dropWhile int_space (rev (dropWhile int_space s)));
          neg = (case t of [] \<Rightarrow> False | c # _ \<Rightarrow> c = CHR ''-'');
          body = (case t of [] \<Rightarrow> [] | c # r \<Rightarrow> if c = CHR ''+'' \<or> c = CHR ''-'' then r else t);
          ds = filter is_digit body;
          n = foldl (\<lambda>a c. 10 * a + int (digit_val c)) 0 ds
      in if valid_digits body \<and> length ds \<le> MAX_STR_DIGITS
         then Some (if neg then - n else n)
         else None)"

section \<open>Configuration (\<^verbatim>\<open>src/config.py\<close>)\<close>

text \<open>The module attributes, read once from the environment and never written afterwards.\<close>

record config =
  PORT :: int
  DB_TYPE :: "string option"
  DB_HOST :: "string option"
  DB_PORT :: "string option"
  DB_NAME :: "string option"
  DB_USER :: "string option"
  DB_PASSWORD :: "string option"

definition truthy_str :: "string option \<Rightarrow> bool" where
  \<comment> \<open>truth value of an \<^verbatim>\<open>Optional[str]\<close>: neither \<^verbatim>\<open>None\<close> nor empty\<close>
  "truthy_str x \<longleftrightarrow> (case x of None \<Rightarrow> False | Some s \<Rightarrow> s \<noteq> [])"

definition or_empty :: "string option \<Rightarrow> string" where
  \<comment> \<open>\<^verbatim>\<open>x or ""\<close>\<close>
  "or_empty x = (case x of None \<Rightarrow> [] | Some s \<Rightarrow> s)"

definition or_None :: "string \<Rightarrow> string option" where
  \<comment> \<open>\<^verbatim>\<open>s or None\<close>\<close>
  "or_None s = (if s = [] then None else Some s)"

definition load_db_type :: "string option \<Rightarrow> string option" where
  \<comment> \<open>\<^verbatim>\<open>DB_TYPE = (os.environ.get("DB_TYPE") or "").strip().upper() or None\<close>\<close>
  "load_db_type v = or_None (str_upper (str_strip (or_empty v)))"

section \<open>Backend type resolution (\<^verbatim>\<open>src/db.py\<close>)\<close>

definition DB_TYPES :: "string list" where
  "DB_TYPES = [''POSTGRESQL'', ''MYSQL'', ''MARIADB'', ''MONGODB'']"

definition PORT_TO_TYPE :: "(int \<times> string) list" where
  "PORT_TO_TYPE = [(5432, ''POSTGRESQL''), (3306, ''MYSQL''), (27017, ''MONGODB'')]"

definition get_db_type :: "config \<Rightarrow> string option" where
  "get_db_type c =
     (let explicit = or_None (str_upper (str_strip (or_empty (DB_TYPE c))))
      in if truthy_str explicit \<and> the explicit \<in> set DB_TYPES then explicit
         else (case DB_PORT c of
                 None \<Rightarrow> None
               | Some s \<Rightarrow>
                   if s = [] then None
                   else (case py_int s of
                           None \<Rightarrow> None
                         | Some port \<Rightarrow> map_of PORT_TO_TYPE port)))"

definition is_configured :: "config \<Rightarrow> bool" where
  "is_configured c =
     (let t = get_db_type c
      in if \<not> truthy_str t then False
         else truthy_str (DB_HOST c) \<and> truthy_str (DB_NAME c))"

section \<open>Python values, timestamps and dictionaries\<close>

record datetime =
  year :: nat
  month :: nat
  day :: nat
  hour :: nat
  minute :: nat
  second :: nat
  microsecond :: nat
  utcoffset :: "int option"
    \<comment> \<open>\<open>None\<close> for a naive \<^verbatim>\<open>datetime\<close>; else the zone's offset from UTC in whole seconds\<close>

text \<open>The values a driver hands back in a row or a document, and a request passes as a name.\<close>

datatype pyval = PNone | PBool bool | PInt int | PStr string | PDatetime datetime

type_synonym pydict = "(string \<times> pyval) list"

definition digit_char :: "nat \<Rightarrow> char" where
  "digit_char n = ''0123456789'' ! n"

fun dec :: "nat \<Rightarrow> string" where
  "dec n = (if n < 10 then [digit_char n] else dec (n div 10) @ [digit_char (n mod 10)])"

declare dec.simps [simp del]

definition str_int :: "int \<Rightarrow> string" where
  \<comment> \<open>\<^verbatim>\<open>str(i)\<close> for an \<^verbatim>\<open>int\<close>\<close>
  "str_int i = (if i < 0 then ''-'' @ dec (nat (- i)) else dec (nat i))"

definition zfill :: "nat \<Rightarrow> string \<Rightarrow> string" where
  "zfill k s = replicate (k - length s) (CHR ''0'') @ s"

definition format_offset :: "int \<Rightarrow> string" where
  \<comment> \<open>the zone suffix of \<^verbatim>\<open>isoformat()\<close>: sign, hours, minutes, and seconds when not zero\<close>
  "format_offset off =
     (let a = nat \<bar>off\<bar>
      in (if off < 0 then ''-'' else ''+'') @ zfill 2 (dec (a div 3600)) @ '':'' @
         zfill 2 (dec (a mod 3600 div 60)) @
         (if a mod 60 \<noteq> 0 then '':'' @ zfill 2 (dec (a mod 60)) else []))"

definition isoformat_sep :: "char \<Rightarrow> datetime \<Rightarrow> string" where
  \<comment> \<open>\<^verbatim>\<open>d.isoformat(sep)\<close>\<close>
  "isoformat_sep sep d =
     zfill 4 (dec (year d)) @ ''-'' @ zfill 2 (dec (month d)) @ ''-'' @ zfill 2 (dec (day d)) @
     [sep] @
     zfill 2 (dec (hour d)) @ '':'' @ zfill 2 (dec (minute d)) @ '':'' @ zfill 2 (dec (second d)) @
     (if microsecond d \<noteq> 0 then ''.'' @ zfill 6 (dec (microsecond d)) else []) @
     (case utcoffset d of None \<Rightarrow> [] | Some off \<Rightarrow> format_offset off)"

definition isoformat :: "datetime \<Rightarrow> string" where
  \<comment> \<open>\<^verbatim>\<open>d.isoformat()\<close>\<close>
  "isoformat d = isoformat_sep (CHR ''T'') d"

definition log_time :: "datetime \<Rightarrow> string" where
  \<comment> \<open>\<^verbatim>\<open>d.strftime("%Y-%m-%dT%H:%M:%S.%f")[:-3] + "Z"\<close>; \<^verbatim>\<open>%Y\<close> is not zero-padded\<close>
  "log_time d =
     (let s = dec (year d) @ ''-'' @ zfill 2 (dec (month d)) @ ''-'' @ zfill 2 (dec (day d)) @
              ''T'' @ zfill 2 (dec (hour d)) @ '':'' @ zfill 2 (dec (minute d)) @ '':'' @
              zfill 2 (dec (second d)) @ ''.'' @ zfill 6 (dec (microsecond d))
      in take (length s - 3) s @ ''Z'')"

definition has_isoformat :: "pyval \<Rightarrow> bool" where
  \<comment> \<open>\<^verbatim>\<open>hasattr(v, "isoformat")\<close>\<close>
  "has_isoformat v \<longleftrightarrow> (case v of PDatetime _ \<Rightarrow> True | _ \<Rightarrow> False)"

definition py_str :: "pyval \<Rightarrow> string" where
  \<comment> \<open>\<^verbatim>\<open>str(v)\<close>\<close>
  "py_str v =
     (case v of
        PNone \<Rightarrow> ''None''
      | PBool b \<Rightarrow> (if b then ''True'' else ''False'')
      | PInt i \<Rightarrow> str_int i
      | PStr s \<Rightarrow> s
      | PDatetime d \<Rightarrow> isoformat_sep (CHR '' '') d)"

definition truthy :: "pyval \<Rightarrow> bool" where
  \<comment> \<open>the truth value of a Python value\<close>
  "truthy v \<longleftrightarrow>
     (case v of
        PNone \<Rightarrow> False
      | PBool b \<Rightarrow> b
      | PInt i \<Rightarrow> i \<noteq> 0
      | PStr s \<Rightarrow> s \<noteq> []
      | PDatetime _ \<Rightarrow> True)"

definition py_or :: "pyval \<Rightarrow> pyval \<Rightarrow> pyval" where
  \<comment> \<open>\<^verbatim>\<open>a or b\<close>\<close>
  "py_or a b = (if truthy a then a else b)"

definition dict_get :: "pydict \<Rightarrow> string \<Rightarrow> pyval" where
  \<comment> \<open>\<^verbatim>\<open>d.get(k)\<close>: \<^verbatim>\<open>None\<close> for a missing key\<close>
  "dict_get d k = (case map_of d k of None \<Rightarrow> PNone | Some v \<Rightarrow> v)"

definition dict_zip :: "string list \<Rightarrow> pyval list \<Rightarrow> pydict" where
  \<comment> \<open>\<^verbatim>\<open>dict(zip(cols, r))\<close>: a repeated column keeps its first place and its last value\<close>
  "dict_zip cols r = fold (\<lambda>(k, v). AList.update k v) (zip cols r) []"

definition hex_char :: "nat \<Rightarrow> char" where
  "hex_char n = ''0123456789abcdef'' ! n"

definition repr_char :: "char \<Rightarrow> char \<Rightarrow> string" where
  "repr_char q c =
     (if c = q \<or> c = CHR 0x5C then [CHR 0x5C, c]
      else if c = CHR 0x0A then [CHR 0x5C, CHR ''n'']
      else if c = CHR 0x0D then [CHR 0x5C, CHR ''r'']
      else if c = CHR 0x09 then [CHR 0x5C, CHR ''t'']
      else if (of_char c :: nat) < 32 \<or> c = CHR 0x7F
        then [CHR 0x5C, CHR ''x'', hex_char (of_char c div 16), hex_char (of_char c mod 16)]
      else [c])"

definition repr_str :: "string \<Rightarrow> string" where
  \<comment> \<open>\<^verbatim>\<open>repr(s)\<close> for a \<^verbatim>\<open>str\<close>: double quotes only when \<open>s\<close> has a single quote and no double one\<close>
  "repr_str s =
     (let q = (if CHR 0x27 \<in> set s \<and> CHR 0x22 \<notin> set s then CHR 0x22 else CHR 0x27)
      in [q] @ concat (map (repr_char q) s) @ [q])"

definition repr_opt :: "string option \<Rightarrow> string" where
  \<comment> \<open>\<^verbatim>\<open>repr(x)\<close> for an \<^verbatim>\<open>Optional[str]\<close>\<close>
  "repr_opt x = (case x of None \<Rightarrow> ''None'' | Some s \<Rightarrow> repr_str s)"

definition str_opt :: "string option \<Rightarrow> string" where
  \<comment> \<open>\<^verbatim>\<open>str(x)\<close> for an \<^verbatim>\<open>Optional[str]\<close>, as an f-string formats it\<close>
  "str_opt x = (case x of None \<Rightarrow> ''None'' | Some s \<Rightarrow> s)"

definition HEX_CHAR :: "nat \<Rightarrow> char" where
  "HEX_CHAR n = ''0123456789ABCDEF'' ! n"

definition quote_plus_char :: "char \<Rightarrow> string" where
  "quote_plus_char c =
     (if c \<in> set ''ABCDEFGHIJKLMNOPQRSTUVWXYZabcdefghijklmnopqrstuvwxyz0123456789_.-~'' then [c]
      else if c = CHR '' '' then ''+''
      else [CHR ''%'', HEX_CHAR (of_char c div 16), HEX_CHAR (of_char c mod 16)])"

definition quote_plus :: "string \<Rightarrow> string" where
  \<comment> \<open>\<^verbatim>\<open>urllib.parse.quote_plus(s)\<close>\<close>
  "quote_plus s = concat (map quote_plus_char s)"

section \<open>Item normalisation (\<^verbatim>\<open>src/db.py\<close>)\<close>

definition created_str :: "pyval \<Rightarrow> pyval" where
  \<comment> \<open>the three-way branch on \<^verbatim>\<open>created\<close> shared by both converters\<close>
  "created_str created =
     (if has_isoformat created then
        (case created of PDatetime d \<Rightarrow> PStr (isoformat d) | _ \<Rightarrow> PNone)
      else if created \<noteq> PNone then PStr (py_str created)
      else PNone)"

definition item_from_row :: "pydict \<Rightarrow> pydict" where
  "item_from_row r =
     (let created = py_or (dict_get r ''created_at'') (dict_get r ''createdAt'')
      in [(''id'', dict_get r ''id''),
          (''name'', dict_get r ''name''),
          (''createdAt'', created_str created)])"

definition mongo_doc_to_item :: "pydict \<Rightarrow> pydict" where
  "mongo_doc_to_item doc =
     (let created = dict_get doc ''createdAt''
      in [(''id'', dict_get doc ''id''),
          (''name'', dict_get doc ''name''),
          (''createdAt'', created_str created)])"

section \<open>Exceptions, the outside world and effects\<close>

datatype exn_class = ValueError | TypeError | KeyError | IndexError | ImportError | DriverError

text \<open>
  An instance of a subclass of \<^verbatim>\<open>Exception\<close>, with its \<^verbatim>\<open>str()\<close>. \<open>DriverError\<close> stands for
  every exception class of a database driver or of the network below it.
\<close>

datatype exn = Raised exn_class string

definition exn_str :: "exn \<Rightarrow> string" where
  "exn_str e = (case e of Raised _ m \<Rightarrow> m)"

definition int_value_error :: "string \<Rightarrow> exn" where
  \<comment> \<open>the \<^verbatim>\<open>ValueError\<close> of \<^verbatim>\<open>int(s)\<close>\<close>
  "int_value_error s =
     (let n = length (filter is_digit s)
      in if n > MAX_STR_DIGITS
         then Raised ValueError
                (''Exceeds the limit (4300 digits) for integer string conversion: value has '' @
                 dec n @ '' digits; use sys.set_int_max_str_digits() to increase the limit'')
         else Raised ValueError (''invalid literal for int() with base 10: '' @ repr_str s))"

text \<open>
  The calls the code makes into the drivers (\<^verbatim>\<open>psycopg2\<close>, \<^verbatim>\<open>pymysql\<close>, \<^verbatim>\<open>pymongo\<close>), with
  their arguments. A cursor call goes to the cursor of the connection opened last.
\<close>

datatype call =
    Import string
  | Pg_pool_create nat nat "string option" int "string option" "string option" "string option"
  | Pg_getconn
  | Pg_putconn
  | My_connect "string option" int "string option" "string option" "string option"
  | My_close
  | Cursor
  | Cursor_exit
  | Execute string "pyval list"
  | Fetchall
  | Fetchone
  | Commit
  | Mongo_client string
  | Mongo_database "string option"
  | Mongo_list_collection_names
  | Mongo_find_sorted
  | Mongo_find_one_by_id int
  | Mongo_find_one_last
  | Mongo_insert_one pydict
  | Mongo_command string

text \<open>
  What the code cannot decide: whether a driver call raises, what a relational cursor
  returns, and what the clock shows. Each answer may depend on all calls made before.
\<close>

record env =
  raises :: "call list \<Rightarrow> call \<Rightarrow> exn option"
  fetched_rows :: "call list \<Rightarrow> pyval list list"
  fetched_row :: "call list \<Rightarrow> pyval list option"
  description :: "call list \<Rightarrow> string list"
    \<comment> \<open>\<^verbatim>\<open>[d[0] for d in cur.description]\<close>\<close>
  lastrowid :: "call list \<Rightarrow> pyval"
  collection_names :: "call list \<Rightarrow> string list"
  utcnow :: "nat \<Rightarrow> datetime"
    \<comment> \<open>the \<open>n\<close>-th reading of \<^verbatim>\<open>datetime.utcnow()\<close>\<close>

record log_entry =
  time :: string
  msg :: string
  isError :: bool

text \<open>
  The mutable state: the module globals of \<^verbatim>\<open>db_logger\<close> and \<^verbatim>\<open>db\<close>, standard output, the
  driver calls made so far, and the \<^verbatim>\<open>items\<close> collection of the document store.
\<close>

record world =
  logs :: "log_entry list"
  stdout :: "string list"
  clock :: nat
  ping_ok_logged :: bool
  pg_pool :: bool
    \<comment> \<open>\<^verbatim>\<open>_pg_pool is not None\<close>\<close>
  mongo_client :: bool
  mongo_db :: bool
    \<comment> \<open>\<^verbatim>\<open>_mongo_db is not None\<close>\<close>
  trace :: "call list"
  items :: "pydict list"

type_synonym 'a io = "world \<Rightarrow> (exn + 'a) \<times> world"

definition io_return :: "'a \<Rightarrow> 'a io" where
  "io_return x = (\<lambda>w. (Inr x, w))"

definition io_raise :: "exn \<Rightarrow> 'a io" where
  "io_raise e = (\<lambda>w. (Inl e, w))"

definition io_bind :: "'a io \<Rightarrow> ('a \<Rightarrow> 'b io) \<Rightarrow> 'b io" where
  \<comment> \<open>one statement after another: an exception skips what follows\<close>
  "io_bind m f = (\<lambda>w. case m w of (Inl e, w') \<Rightarrow> (Inl e, w') | (Inr x, w') \<Rightarrow> f x w')"

definition io_finally :: "'a io \<Rightarrow> unit io \<Rightarrow> 'a io" where
  \<comment> \<open>\<^verbatim>\<open>try: m finally: c\<close>, and a \<^verbatim>\<open>with\<close> block's exit: \<open>c\<close> always runs, and an exception
      of \<open>c\<close> replaces the outcome of \<open>m\<close>\<close>
  "io_finally m c =
     (\<lambda>w. case m w of
             (r, w') \<Rightarrow> (case c w' of (Inl e, w'') \<Rightarrow> (Inl e, w'') | (Inr _, w'') \<Rightarrow> (r, w'')))"

definition io_catch :: "'a io \<Rightarrow> (exn \<Rightarrow> 'a io) \<Rightarrow> 'a io" where
  \<comment> \<open>\<^verbatim>\<open>try: m except Exception as e: h e\<close>\<close>
  "io_catch m h = (\<lambda>w. case m w of (Inl e, w') \<Rightarrow> h e w' | (Inr x, w') \<Rightarrow> (Inr x, w'))"

definition io_modify :: "(world \<Rightarrow> world) \<Rightarrow> unit io" where
  "io_modify f = (\<lambda>w. (Inr (), f w))"

fun io_map :: "('a \<Rightarrow> 'b io) \<Rightarrow> 'a list \<Rightarrow> 'b list io" where
  \<comment> \<open>a list comprehension whose element expression may raise\<close>
  "io_map f [] = io_return []"
| "io_map f (x # xs) = io_bind (f x) (\<lambda>y. io_bind (io_map f xs) (\<lambda>ys. io_return (y # ys)))"

definition driver_call :: "env \<Rightarrow> call \<Rightarrow> unit io" where
  \<comment> \<open>a call into a driver: recorded, then it raises or returns\<close>
  "driver_call E c =
     (\<lambda>w. let w' = w\<lparr>trace := trace w @ [c]\<rparr>
          in case raises E (trace w) c of Some e \<Rightarrow> (Inl e, w') | None \<Rightarrow> (Inr (), w'))"

definition read_clock :: "env \<Rightarrow> world \<Rightarrow> datetime \<times> world" where
  \<comment> \<open>\<^verbatim>\<open>datetime.utcnow()\<close>: a naive timestamp\<close>
  "read_clock E w = ((utcnow E (clock w))\<lparr>utcoffset := None\<rparr>, w\<lparr>clock := Suc (clock w)\<rparr>)"

section \<open>The diagnostic log (\<^verbatim>\<open>src/db_logger.py\<close>)\<close>

definition MAX_LOGS :: nat where
  "MAX_LOGS = 100"

definition add_log :: "env \<Rightarrow> string \<Rightarrow> bool \<Rightarrow> world \<Rightarrow> world" where
  "add_log E m is_error w =
     (let (now, w1) = read_clock E w;
          entry = \<lparr>time = log_time now, msg = m, isError = is_error\<rparr>;
          appended = logs w1 @ [entry];
          kept = (if length appended > MAX_LOGS
                  then drop (length appended - MAX_LOGS) appended
                  else appended)
      in w1\<lparr>logs := kept, stdout := stdout w1 @ [''[DB] '' @ m]\<rparr>)"

definition get_logs :: "world \<Rightarrow> log_entry list" where
  "get_logs w = logs w"

section \<open>The relational adapters (\<^verbatim>\<open>src/db.py\<close>)\<close>

definition SQL_PG_TABLES :: string where
  "SQL_PG_TABLES =
     [CHR 0x0A] @ ''                SELECT table_name FROM information_schema.tables'' @
     [CHR 0x0A] @ ''                WHERE table_schema = '' @ [CHR 0x27] @ ''public'' @
     [CHR 0x27] @ '' AND table_type = '' @ [CHR 0x27] @ ''BASE TABLE'' @
     [CHR 0x27, CHR 0x0A] @ ''                ORDER BY table_name'' @ [CHR 0x0A] @
     ''                ''"

definition SQL_PG_CREATE_ITEMS :: string where
  "SQL_PG_CREATE_ITEMS =
     [CHR 0x0A] @ ''                CREATE TABLE IF NOT EXISTS items ('' @ [CHR 0x0A] @
     ''                    id SERIAL PRIMARY KEY,'' @ [CHR 0x0A] @
     ''                    name VARCHAR(255) NOT NULL,'' @ [CHR 0x0A] @
     ''                    created_at TIMESTAMPTZ DEFAULT NOW()'' @ [CHR 0x0A] @
     ''                )'' @ [CHR 0x0A] @ ''                ''"

definition SQL_MYSQL_TABLES :: string where
  "SQL_MYSQL_TABLES =
     [CHR 0x0A] @ ''                SELECT table_name FROM information_schema.tables'' @
     [CHR 0x0A] @ ''                WHERE table_schema = %s AND table_type = '' @
     [CHR 0x27] @ ''BASE TABLE'' @ [CHR 0x27, CHR 0x0A] @
     ''                ORDER BY table_name'' @ [CHR 0x0A] @ ''                ''"

definition SQL_MYSQL_CREATE_ITEMS :: string where
  "SQL_MYSQL_CREATE_ITEMS =
     [CHR 0x0A] @ ''                CREATE TABLE IF NOT EXISTS items ('' @ [CHR 0x0A] @
     ''                    id INT AUTO_INCREMENT PRIMARY KEY,'' @ [CHR 0x0A] @
     ''                    name VARCHAR(255) NOT NULL,'' @ [CHR 0x0A] @
     ''                    created_at DATETIME(6) DEFAULT CURRENT_TIMESTAMP(6'' @ '')'' @
     [CHR 0x0A] @ ''                )'' @ [CHR 0x0A] @ ''                ''"

definition NOT_CONFIGURED :: string where
  \<comment> \<open>the message of the not-configured result of \<^verbatim>\<open>get_tables\<close>\<close>
  "NOT_CONFIGURED =
     ''DB'' @ [CHR 0xEA, CHR 0xB0, CHR 0x80] @ '' '' @
     [CHR 0xEC, CHR 0x84, CHR 0xA4, CHR 0xEC, CHR 0xA0, CHR 0x95, CHR 0xEB, CHR 0x90] @
     [CHR 0x98, CHR 0xEC, CHR 0xA7, CHR 0x80] @ '' '' @
     [CHR 0xEC, CHR 0x95, CHR 0x8A, CHR 0xEC, CHR 0x95, CHR 0x98, CHR 0xEC, CHR 0x8A] @
     [CHR 0xB5, CHR 0xEB, CHR 0x8B, CHR 0x88, CHR 0xEB, CHR 0x8B, CHR 0xA4] @
     ''. DB_TYPE, DB_HOST, DB_NAME '' @ [CHR 0xEB, CHR 0x93, CHR 0xB1] @ '' '' @
     [CHR 0xED, CHR 0x99, CHR 0x98, CHR 0xEA, CHR 0xB2, CHR 0xBD] @ '' '' @
     [CHR 0xEB, CHR 0xB3, CHR 0x80, CHR 0xEC, CHR 0x88, CHR 0x98, CHR 0xEB, CHR 0xA5] @
     [CHR 0xBC] @ '' '' @
     [CHR 0xED, CHR 0x99, CHR 0x95, CHR 0xEC, CHR 0x9D, CHR 0xB8, CHR 0xED, CHR 0x95] @
     [CHR 0x98, CHR 0xEC, CHR 0x84, CHR 0xB8, CHR 0xEC, CHR 0x9A, CHR 0x94] @ ''.''"

definition UNSUPPORTED_DB_TYPE :: string where
  "UNSUPPORTED_DB_TYPE =
     [CHR 0xEC, CHR 0xA7, CHR 0x80, CHR 0xEC, CHR 0x9B, CHR 0x90, CHR 0xED, CHR 0x95] @
     [CHR 0x98, CHR 0xEC, CHR 0xA7, CHR 0x80] @ '' '' @
     [CHR 0xEC, CHR 0x95, CHR 0x8A, CHR 0xEB, CHR 0x8A, CHR 0x94] @ '' DB_TYPE'' @
     [CHR 0xEC, CHR 0x9E, CHR 0x85, CHR 0xEB, CHR 0x8B, CHR 0x88, CHR 0xEB, CHR 0x8B] @
     [CHR 0xA4] @ ''. POSTGRESQL, MYSQL, MARIADB, MONGODB '' @
     [CHR 0xEC, CHR 0xA4, CHR 0x91] @ '' '' @
     [CHR 0xED, CHR 0x95, CHR 0x98, CHR 0xEB, CHR 0x82, CHR 0x98, CHR 0xEB, CHR 0xA5] @
     [CHR 0xBC] @ '' '' @
     [CHR 0xEC, CHR 0x82, CHR 0xAC, CHR 0xEC, CHR 0x9A, CHR 0xA9, CHR 0xED, CHR 0x95] @
     [CHR 0x98, CHR 0xEC, CHR 0x84, CHR 0xB8, CHR 0xEC, CHR 0x9A, CHR 0x94] @ ''.''"

text \<open>The dictionary \<^verbatim>\<open>get_tables\<close> returns: \<^verbatim>\<open>{"tables": [...]}\<close> or \<^verbatim>\<open>{"error": message}\<close>.\<close>

datatype tables_result = Tables_dict "pyval list" | Error_dict string

definition opt_val :: "string option \<Rightarrow> pyval" where
  \<comment> \<open>an \<^verbatim>\<open>Optional[str]\<close> passed as a query parameter\<close>
  "opt_val x = (case x of None \<Rightarrow> PNone | Some s \<Rightarrow> PStr s)"

definition port_or :: "config \<Rightarrow> int \<Rightarrow> int io" where
  \<comment> \<open>\<^verbatim>\<open>int(c.DB_PORT) if c.DB_PORT else dflt\<close>\<close>
  "port_or c dflt =
     (case DB_PORT c of
        None \<Rightarrow> io_return dflt
      | Some s \<Rightarrow>
          if s = [] then io_return dflt
          else (case py_int s of
                  None \<Rightarrow> io_raise (int_value_error s)
                | Some p \<Rightarrow> io_return p))"

definition conn_info :: "string option \<Rightarrow> int \<Rightarrow> string option \<Rightarrow> string \<Rightarrow> string" where
  \<comment> \<open>\<^verbatim>\<open>str(dict(host=h, port=p, database=d, user=u))\<close>, with \<open>u\<close> given as its \<^verbatim>\<open>repr\<close>\<close>
  "conn_info h p d u =
     (''{'' @ [CHR 0x27] @ ''host'' @ [CHR 0x27] @ '': '') @ repr_opt h @ ('', '' @ [CHR 0x27] @ ''port'' @ [CHR 0x27] @ '': '') @ str_int p @
     ('', '' @ [CHR 0x27] @ ''database'' @ [CHR 0x27] @ '': '') @ repr_opt d @ ('', '' @ [CHR 0x27] @ ''user'' @ [CHR 0x27] @ '': '') @ u @ ''}''"

definition with_cursor :: "env \<Rightarrow> 'a io \<Rightarrow> 'a io" where
  \<comment> \<open>\<^verbatim>\<open>with conn.cursor() as cur: body\<close>\<close>
  "with_cursor E body = io_bind (driver_call E Cursor) (\<lambda>_. io_finally body (driver_call E Cursor_exit))"

definition fetchall :: "env \<Rightarrow> pyval list list io" where
  "fetchall E = io_bind (driver_call E Fetchall) (\<lambda>_ w. (Inr (fetched_rows E (trace w)), w))"

definition fetchone :: "env \<Rightarrow> pyval list option io" where
  "fetchone E = io_bind (driver_call E Fetchone) (\<lambda>_ w. (Inr (fetched_row E (trace w)), w))"

definition column_names :: "env \<Rightarrow> string list io" where
  \<comment> \<open>\<^verbatim>\<open>[d[0] for d in cur.description]\<close>\<close>
  "column_names E = (\<lambda>w. (Inr (description E (trace w)), w))"

definition first_column :: "pyval list \<Rightarrow> pyval io" where
  \<comment> \<open>\<^verbatim>\<open>r[0]\<close>\<close>
  "first_column r =
     (case r of [] \<Rightarrow> io_raise (Raised IndexError ''tuple index out of range'') | x # _ \<Rightarrow> io_return x)"

definition zip_row :: "string list \<Rightarrow> pyval list option \<Rightarrow> pydict io" where
  \<comment> \<open>\<^verbatim>\<open>dict(zip(cols, row))\<close> where \<^verbatim>\<open>row\<close> may be \<^verbatim>\<open>None\<close>\<close>
  "zip_row cols row =
     (case row of
        None \<Rightarrow> io_raise (Raised TypeError ([CHR 0x27] @ ''NoneType'' @ [CHR 0x27] @ '' object is not iterable''))
      | Some r \<Rightarrow> io_return (dict_zip cols r))"

definition row_to_item :: "string list \<Rightarrow> pyval list option \<Rightarrow> pydict option" where
  \<comment> \<open>\<^verbatim>\<open>if not row: return None\<close>, then \<^verbatim>\<open>return _item_from_row(dict(zip(cols, row)))\<close>\<close>
  "row_to_item cols row =
     (case row of
        None \<Rightarrow> None
      | Some r \<Rightarrow> if r = [] then None else Some (item_from_row (dict_zip cols r)))"

subsection \<open>PostgreSQL\<close>

definition get_pg_pool :: "env \<Rightarrow> config \<Rightarrow> unit io" where
  "get_pg_pool E c =
     (\<lambda>w. if pg_pool w then io_return () w
          else io_bind (driver_call E (Import ''psycopg2'')) (\<lambda>_.
               io_bind (port_or c 5432) (\<lambda>port.
               io_bind (io_modify (add_log E
                          (''Connecting to PostgreSQL '' @
                           conn_info (DB_HOST c) port (DB_NAME c) (repr_opt (DB_USER c))) False)) (\<lambda>_.
               io_bind (driver_call E (Pg_pool_create 1 10 (DB_HOST c) port (DB_NAME c)
                                         (DB_USER c) (DB_PASSWORD c))) (\<lambda>_.
               io_modify (\<lambda>w. w\<lparr>pg_pool := True\<rparr>))))) w)"

definition pg_get_tables :: "env \<Rightarrow> config \<Rightarrow> tables_result io" where
  "pg_get_tables E c =
     io_bind (get_pg_pool E c) (\<lambda>_.
     io_bind (driver_call E Pg_getconn) (\<lambda>_.
     io_finally
       (io_bind (with_cursor E
                   (io_bind (driver_call E (Execute SQL_PG_TABLES [])) (\<lambda>_. fetchall E))) (\<lambda>rows.
        io_bind (io_map first_column rows) (\<lambda>names.
        io_return (Tables_dict names))))
       (driver_call E Pg_putconn)))"

definition pg_ensure_items :: "env \<Rightarrow> config \<Rightarrow> unit io" where
  "pg_ensure_items E c =
     io_bind (get_pg_pool E c) (\<lambda>_.
     io_bind (driver_call E Pg_getconn) (\<lambda>_.
     io_finally
       (io_bind (with_cursor E (driver_call E (Execute SQL_PG_CREATE_ITEMS []))) (\<lambda>_.
        driver_call E Commit))
       (driver_call E Pg_putconn)))"

definition pg_get_items :: "env \<Rightarrow> config \<Rightarrow> pydict list io" where
  "pg_get_items E c =
     io_bind (pg_ensure_items E c) (\<lambda>_.
     io_bind (get_pg_pool E c) (\<lambda>_.
     io_bind (driver_call E Pg_getconn) (\<lambda>_.
     io_finally
       (io_bind (with_cursor E
                   (io_bind (driver_call E
                               (Execute ''SELECT id, name, created_at FROM items ORDER BY id'' [])) (\<lambda>_.
                    io_bind (column_names E) (\<lambda>cols.
                    io_bind (fetchall E) (\<lambda>fetched.
                    io_return (map (dict_zip cols) fetched)))))) (\<lambda>rows.
        io_return (map item_from_row rows)))
       (driver_call E Pg_putconn))))"

definition pg_get_item_by_id :: "env \<Rightarrow> config \<Rightarrow> int \<Rightarrow> pydict option io" where
  "pg_get_item_by_id E c ident =
     io_bind (pg_ensure_items E c) (\<lambda>_.
     io_bind (get_pg_pool E c) (\<lambda>_.
     io_bind (driver_call E Pg_getconn) (\<lambda>_.
     io_finally
       (io_bind (with_cursor E
                   (io_bind (driver_call E
                               (Execute ''SELECT id, name, created_at FROM items WHERE id = %s''
                                  [PInt ident])) (\<lambda>_.
                    io_bind (column_names E) (\<lambda>cols.
                    io_bind (fetchone E) (\<lambda>row.
                    io_return (cols, row)))))) (\<lambda>(cols, row).
        io_return (row_to_item cols row)))
       (driver_call E Pg_putconn))))"

definition pg_create_item :: "env \<Rightarrow> config \<Rightarrow> pyval \<Rightarrow> pydict io" where
  "pg_create_item E c name =
     io_bind (pg_ensure_items E c) (\<lambda>_.
     io_bind (get_pg_pool E c) (\<lambda>_.
     io_bind (driver_call E Pg_getconn) (\<lambda>_.
     io_finally
       (io_bind (with_cursor E
                   (io_bind (driver_call E
                               (Execute ''INSERT INTO items (name) VALUES (%s) RETURNING id, name, created_at''
                                  [name])) (\<lambda>_.
                    io_bind (fetchone E) (\<lambda>row.
                    io_bind (column_names E) (\<lambda>cols.
                    io_return (cols, row)))))) (\<lambda>(cols, row).
        io_bind (driver_call E Commit) (\<lambda>_.
        io_bind (zip_row cols row) (\<lambda>r.
        io_return (item_from_row r)))))
       (driver_call E Pg_putconn))))"

subsection \<open>MySQL and MariaDB\<close>

definition mysql_get_connection :: "env \<Rightarrow> config \<Rightarrow> unit io" where
  "mysql_get_connection E c =
     io_bind (driver_call E (Import ''pymysql'')) (\<lambda>_.
     io_bind (port_or c 3306) (\<lambda>port.
     driver_call E (My_connect (DB_HOST c) port (DB_NAME c) (DB_USER c) (DB_PASSWORD c))))"

definition mysql_get_tables :: "env \<Rightarrow> config \<Rightarrow> tables_result io" where
  "mysql_get_tables E c =
     io_bind (mysql_get_connection E c) (\<lambda>_.
     io_finally
       (io_bind (with_cursor E
                   (io_bind (driver_call E (Execute SQL_MYSQL_TABLES [opt_val (DB_NAME c)])) (\<lambda>_.
                    fetchall E))) (\<lambda>rows.
        io_bind (io_map first_column rows) (\<lambda>names.
        io_return (Tables_dict names))))
       (driver_call E My_close))"

definition mysql_ensure_items :: "env \<Rightarrow> config \<Rightarrow> unit io" where
  "mysql_ensure_items E c =
     io_bind (mysql_get_connection E c) (\<lambda>_.
     io_finally
       (io_bind (with_cursor E (driver_call E (Execute SQL_MYSQL_CREATE_ITEMS []))) (\<lambda>_.
        driver_call E Commit))
       (driver_call E My_close))"

definition mysql_get_items :: "env \<Rightarrow> config \<Rightarrow> pydict list io" where
  "mysql_get_items E c =
     io_bind (mysql_ensure_items E c) (\<lambda>_.
     io_bind (mysql_get_connection E c) (\<lambda>_.
     io_finally
       (io_bind (with_cursor E
                   (io_bind (driver_call E
                               (Execute ''SELECT id, name, created_at FROM items ORDER BY id'' [])) (\<lambda>_.
                    io_bind (column_names E) (\<lambda>cols.
                    io_bind (fetchall E) (\<lambda>fetched.
                    io_return (map (dict_zip cols) fetched)))))) (\<lambda>rows.
        io_return (map item_from_row rows)))
       (driver_call E My_close)))"

definition mysql_get_item_by_id :: "env \<Rightarrow> config \<Rightarrow> int \<Rightarrow> pydict option io" where
  "mysql_get_item_by_id E c ident =
     io_bind (mysql_ensure_items E c) (\<lambda>_.
     io_bind (mysql_get_connection E c) (\<lambda>_.
     io_finally
       (io_bind (with_cursor E
                   (io_bind (driver_call E
                               (Execute ''SELECT id, name, created_at FROM items WHERE id = %s''
                                  [PInt ident])) (\<lambda>_.
                    io_bind (column_names E) (\<lambda>cols.
                    io_bind (fetchone E) (\<lambda>row.
                    io_return (cols, row)))))) (\<lambda>(cols, row).
        io_return (row_to_item cols row)))
       (driver_call E My_close)))"

definition mysql_create_item :: "env \<Rightarrow> config \<Rightarrow> pyval \<Rightarrow> pydict io" where
  "mysql_create_item E c name =
     io_bind (mysql_ensure_items E c) (\<lambda>_.
     io_bind (mysql_get_connection E c) (\<lambda>_.
     io_finally
       (io_bind (with_cursor E
                   (io_bind (driver_call E (Execute ''INSERT INTO items (name) VALUES (%s)'' [name])) (\<lambda>_ w.
                    (Inr (lastrowid E (trace w)), w)))) (\<lambda>insert_id.
        io_bind (driver_call E Commit) (\<lambda>_.
        io_bind (with_cursor E
                   (io_bind (driver_call E
                               (Execute ''SELECT id, name, created_at FROM items WHERE id = %s''
                                  [insert_id])) (\<lambda>_.
                    io_bind (column_names E) (\<lambda>cols.
                    io_bind (fetchone E) (\<lambda>row.
                    io_return (cols, row)))))) (\<lambda>(cols, row).
        io_bind (zip_row cols row) (\<lambda>r.
        io_return (item_from_row r))))))
       (driver_call E My_close)))"

section \<open>The document-store adapter (\<^verbatim>\<open>src/db.py\<close>)\<close>

text \<open>
  The store's side of the \<^verbatim>\<open>items\<close> collection is modelled: \<open>items\<close> holds its documents in
  insertion order, a query is answered from it, and \<open>id_key\<close> is the order in which the
  store sorts on \<^verbatim>\<open>id\<close>: a missing or null id first, then numbers by value, then strings,
  booleans and dates (values of one of the last three kinds are not ordered further). The
  \<^verbatim>\<open>_id\<close> field the store adds to a document is left out, as no code reads it.
\<close>

definition id_key :: "pydict \<Rightarrow> nat \<times> int" where
  "id_key d =
     (case dict_get d ''id'' of
        PNone \<Rightarrow> (0, 0)
      | PInt n \<Rightarrow> (1, n)
      | PStr _ \<Rightarrow> (2, 0)
      | PBool b \<Rightarrow> (3, of_bool b)
      | PDatetime _ \<Rightarrow> (4, 0))"

definition find_sorted :: "pydict list \<Rightarrow> pydict list" where
  \<comment> \<open>\<^verbatim>\<open>list(col.find({}).sort("id", 1))\<close>\<close>
  "find_sorted col = sort_key id_key col"

definition find_one_last :: "pydict list \<Rightarrow> pydict option" where
  \<comment> \<open>\<^verbatim>\<open>col.find_one(sort=[("id", -1)])\<close>\<close>
  "find_one_last col = (case rev (sort_key id_key col) of [] \<Rightarrow> None | d # _ \<Rightarrow> Some d)"

definition find_one_by_id :: "pydict list \<Rightarrow> int \<Rightarrow> pydict option" where
  \<comment> \<open>\<^verbatim>\<open>col.find_one({"id": num_id})\<close>\<close>
  "find_one_by_id col n = find (\<lambda>d. dict_get d ''id'' = PInt n) col"

definition stored :: "pydict \<Rightarrow> pydict" where
  \<comment> \<open>a document as the store keeps it: a timestamp is cut to whole milliseconds\<close>
  "stored d =
     map (\<lambda>(k, v). (k, case v of
                          PDatetime t \<Rightarrow> PDatetime (t\<lparr>microsecond := microsecond t div 1000 * 1000\<rparr>)
                        | _ \<Rightarrow> v)) d"

definition get_mongo_db :: "env \<Rightarrow> config \<Rightarrow> unit io" where
  "get_mongo_db E c =
     (\<lambda>w. if mongo_db w then io_return () w
          else io_bind (driver_call E (Import ''pymongo'')) (\<lambda>_.
               io_bind (port_or c 27017) (\<lambda>port.
               let auth = (if truthy_str (DB_USER c) \<and> truthy_str (DB_PASSWORD c)
                           then quote_plus (the (DB_USER c)) @ '':'' @
                                quote_plus (the (DB_PASSWORD c)) @ ''@''
                           else [])
               in
               io_bind (io_modify (add_log E
                          (''Connecting to MongoDB '' @
                           conn_info (DB_HOST c) port (DB_NAME c)
                             (repr_str (if truthy_str (DB_USER c) then ''(set)'' else ''(none)'')))
                          False)) (\<lambda>_.
               let url = ''mongodb://'' @ auth @ str_opt (DB_HOST c) @ '':'' @ str_int port @
                         ''/'' @ str_opt (DB_NAME c)
               in
               io_bind (driver_call E (Mongo_client url)) (\<lambda>_.
               io_bind (io_modify (\<lambda>w. w\<lparr>mongo_client := True\<rparr>)) (\<lambda>_.
               io_bind (driver_call E (Mongo_database (DB_NAME c))) (\<lambda>_.
               io_modify (\<lambda>w. w\<lparr>mongo_db := True\<rparr>))))))) w)"

definition mongo_get_tables :: "env \<Rightarrow> config \<Rightarrow> tables_result io" where
  "mongo_get_tables E c =
     io_bind (get_mongo_db E c) (\<lambda>_.
     io_bind (driver_call E Mongo_list_collection_names) (\<lambda>_ w.
     (Inr (Tables_dict (map PStr (collection_names E (trace w)))), w)))"

definition mongo_get_items :: "env \<Rightarrow> config \<Rightarrow> pydict list io" where
  "mongo_get_items E c =
     io_bind (get_mongo_db E c) (\<lambda>_.
     io_bind (driver_call E Mongo_find_sorted) (\<lambda>_ w.
     (Inr (map mongo_doc_to_item (find_sorted (items w))), w)))"

definition mongo_get_item_by_id :: "env \<Rightarrow> config \<Rightarrow> int \<Rightarrow> pydict option io" where
  \<comment> \<open>\<open>ident\<close> is an \<^verbatim>\<open>int\<close>, so \<^verbatim>\<open>int(id)\<close> returns it and raises nothing\<close>
  "mongo_get_item_by_id E c ident =
     (let num_id = ident
      in io_bind (get_mongo_db E c) (\<lambda>_.
         io_bind (driver_call E (Mongo_find_one_by_id num_id)) (\<lambda>_ w.
         (Inr (case find_one_by_id (items w) num_id of
                 None \<Rightarrow> None
               | Some doc \<Rightarrow> if doc = [] then None else Some (mongo_doc_to_item doc)), w))))"

definition add_one :: "pyval \<Rightarrow> pyval io" where
  \<comment> \<open>\<^verbatim>\<open>v + 1\<close>\<close>
  "add_one v =
     (case v of
        PInt n \<Rightarrow> io_return (PInt (n + 1))
      | PBool b \<Rightarrow> io_return (PInt (of_bool b + 1))
      | PNone \<Rightarrow> io_raise (Raised TypeError (''unsupported operand type(s) for +: '' @ [CHR 0x27] @ ''NoneType'' @ [CHR 0x27] @ '' and '' @ [CHR 0x27] @ ''int'' @ [CHR 0x27]))
      | PStr _ \<Rightarrow> io_raise (Raised TypeError (''can only concatenate str (not '' @ [CHR 0x22] @ ''int'' @ [CHR 0x22] @ '') to str''))
      | PDatetime _ \<Rightarrow>
          io_raise (Raised TypeError (''unsupported operand type(s) for +: '' @ [CHR 0x27] @ ''datetime.datetime'' @ [CHR 0x27] @ '' and '' @ [CHR 0x27] @ ''int'' @ [CHR 0x27])))"

definition next_id_of :: "pydict option \<Rightarrow> pyval io" where
  \<comment> \<open>\<^verbatim>\<open>(last["id"] + 1) if last else 1\<close>\<close>
  "next_id_of last_doc =
     (case last_doc of
        None \<Rightarrow> io_return (PInt 1)
      | Some d \<Rightarrow>
          if d = [] then io_return (PInt 1)
          else (case map_of d ''id'' of
                  None \<Rightarrow> io_raise (Raised KeyError ([CHR 0x27] @ ''id'' @ [CHR 0x27]))
                | Some v \<Rightarrow> add_one v))"

definition mongo_create_item :: "env \<Rightarrow> config \<Rightarrow> pyval \<Rightarrow> pydict io" where
  "mongo_create_item E c name =
     io_bind (get_mongo_db E c) (\<lambda>_.
     io_bind (driver_call E Mongo_find_one_last) (\<lambda>_ w.
       (let last_doc = find_one_last (items w)
        in io_bind (next_id_of last_doc) (\<lambda>next_id w1.
             (let (now, w2) = read_clock E w1;
                  doc = [(''id'', next_id), (''name'', name), (''createdAt'', PDatetime now)]
              in io_bind (driver_call E (Mongo_insert_one doc)) (\<lambda>_.
                 io_bind (io_modify (\<lambda>w3. w3\<lparr>items := items w3 @ [stored doc]\<rparr>)) (\<lambda>_.
                 io_return (mongo_doc_to_item doc))) w2))) w))"

section \<open>Ping and the public dispatchers (\<^verbatim>\<open>src/db.py\<close>)\<close>

definition log_ping_ok :: "env \<Rightarrow> string \<Rightarrow> unit io" where
  \<comment> \<open>\<^verbatim>\<open>if not _ping_ok_logged: db_logger.add_log(m); _ping_ok_logged = True\<close>\<close>
  "log_ping_ok E m =
     (\<lambda>w. if \<not> ping_ok_logged w
          then (Inr (), (add_log E m False w)\<lparr>ping_ok_logged := True\<rparr>)
          else (Inr (), w))"

definition ping_try :: "env \<Rightarrow> config \<Rightarrow> string option \<Rightarrow> bool io" where
  \<comment> \<open>the body of the \<^verbatim>\<open>try\<close> block of \<^verbatim>\<open>ping\<close>\<close>
  "ping_try E c t =
     (if t = Some ''POSTGRESQL'' then
        io_bind (get_pg_pool E c) (\<lambda>_.
        io_bind (driver_call E Pg_getconn) (\<lambda>_.
        io_bind (io_finally
                   (with_cursor E (driver_call E (Execute ''SELECT 1'' [])))
                   (driver_call E Pg_putconn)) (\<lambda>_.
        io_bind (log_ping_ok E ''Ping OK (PostgreSQL)'') (\<lambda>_.
        io_return True))))
      else if t \<in> {Some ''MYSQL'', Some ''MARIADB''} then
        io_bind (mysql_get_connection E c) (\<lambda>_.
        io_bind (io_finally
                   (with_cursor E (driver_call E (Execute ''SELECT 1'' [])))
                   (driver_call E My_close)) (\<lambda>_.
        io_bind (log_ping_ok E ''Ping OK (MySQL/MariaDB)'') (\<lambda>_.
        io_return True)))
      else if t = Some ''MONGODB'' then
        io_bind (get_mongo_db E c) (\<lambda>_.
        io_bind (driver_call E (Mongo_command ''ping'')) (\<lambda>_.
        io_bind (log_ping_ok E ''Ping OK (MongoDB)'') (\<lambda>_.
        io_return True)))
      else io_return False)"

definition ping :: "env \<Rightarrow> config \<Rightarrow> bool io" where
  "ping E c =
     (if \<not> is_configured c then io_return False
      else (let t = get_db_type c
            in io_catch (ping_try E c t)
                 (\<lambda>e. io_bind (io_modify (add_log E (''Ping failed: '' @ exn_str e) True)) (\<lambda>_.
                      io_return False))))"

definition get_tables :: "env \<Rightarrow> config \<Rightarrow> tables_result io" where
  "get_tables E c =
     (if \<not> is_configured c then io_return (Error_dict NOT_CONFIGURED)
      else (let t = get_db_type c
            in io_catch
                 (if t = Some ''POSTGRESQL'' then pg_get_tables E c
                  else if t \<in> {Some ''MYSQL'', Some ''MARIADB''} then mysql_get_tables E c
                  else if t = Some ''MONGODB'' then mongo_get_tables E c
                  else io_return (Error_dict UNSUPPORTED_DB_TYPE))
                 (\<lambda>e. io_return (Error_dict (exn_str e)))))"

definition get_items :: "env \<Rightarrow> config \<Rightarrow> pydict list option io" where
  "get_items E c =
     (if \<not> is_configured c then io_return None
      else (let t = get_db_type c
            in if t = Some ''POSTGRESQL'' then io_bind (pg_get_items E c) (\<lambda>r. io_return (Some r))
               else if t \<in> {Some ''MYSQL'', Some ''MARIADB''}
                 then io_bind (mysql_get_items E c) (\<lambda>r. io_return (Some r))
               else if t = Some ''MONGODB'' then io_bind (mongo_get_items E c) (\<lambda>r. io_return (Some r))
               else io_return None))"

definition get_item_by_id :: "env \<Rightarrow> config \<Rightarrow> int \<Rightarrow> pydict option io" where
  "get_item_by_id E c ident =
     (if \<not> is_configured c then io_return None
      else (let t = get_db_type c
            in if t = Some ''POSTGRESQL'' then pg_get_item_by_id E c ident
               else if t \<in> {Some ''MYSQL'', Some ''MARIADB''} then mysql_get_item_by_id E c ident
               else if t = Some ''MONGODB'' then mongo_get_item_by_id E c ident
               else io_return None))"

definition create_item :: "env \<Rightarrow> config \<Rightarrow> pyval \<Rightarrow> pydict option io" where
  "create_item E c name =
     (if \<not> is_configured c then io_return None
      else (let t = get_db_type c
            in if t = Some ''POSTGRESQL'' then io_bind (pg_create_item E c name) (\<lambda>r. io_return (Some r))
               else if t \<in> {Some ''MYSQL'', Some ''MARIADB''}
                 then io_bind (mysql_create_item E c name) (\<lambda>r. io_return (Some r))
               else if t = Some ''MONGODB''
                 then io_bind (mongo_create_item E c name) (\<lambda>r. io_return (Some r))
               else io_return None))"

section \<open>The availability gate and the liveness probes (\<^verbatim>\<open>src/app.py\<close>)\<close>

definition NOT_SET :: string where
  \<comment> \<open>the sentinel shown for an unset variable\<close>
  "NOT_SET =
     ''('' @
     [CHR 0xEB, CHR 0xAF, CHR 0xB8, CHR 0xEC, CHR 0x84, CHR 0xA4, CHR 0xEC, CHR 0xA0] @
     [CHR 0x95] @ '')''"

definition TR_OPEN :: string where
  "TR_OPEN =
     ''<tr><th style='' @ [CHR 0x22] @
     ''text-align:left;padding:0.4rem 0.6rem;border-bottom:1px solid #eee;'' @ [CHR 0x22] @
     ''>''"

definition TD_OPEN :: string where
  "TD_OPEN =
     ''</th><td style='' @ [CHR 0x22] @
     ''padding:0.4rem 0.6rem;border-bottom:1px solid #eee;word-break:break-al'' @ ''l;'' @
     [CHR 0x22] @ ''>''"

definition TR_CLOSE :: string where
  "TR_CLOSE =
     ''</td></tr>''"

definition TABLE_OPEN :: string where
  "TABLE_OPEN =
     ''<table style='' @ [CHR 0x22] @
     ''width:100%;max-width:400px;margin:1rem auto;font-size:0.9rem;border-co'' @
     ''llapse:collapse;'' @ [CHR 0x22] @ ''>''"

definition NO_LOGS_YET :: string where
  "NO_LOGS_YET =
     ''('' @ [CHR 0xEC, CHR 0x95, CHR 0x84, CHR 0xEC, CHR 0xA7, CHR 0x81] @ '' '' @
     [CHR 0xEB, CHR 0xA1, CHR 0x9C, CHR 0xEA, CHR 0xB7, CHR 0xB8] @ '' '' @
     [CHR 0xEC, CHR 0x97, CHR 0x86, CHR 0xEC, CHR 0x9D, CHR 0x8C] @ '')''"

definition PRE_OPEN :: string where
  "PRE_OPEN =
     ''<pre style='' @ [CHR 0x22] @
     ''text-align:left;background:#1a1a2e;color:#e2e8f0;padding:1rem;border-r'' @
     ''adius:6px;font-size:0.8rem;overflow:auto;max-height:200px;'' @ [CHR 0x22] @ ''>''"

definition PAGE_HEAD :: string where
  \<comment> \<open>the page up to the table of variables\<close>
  "PAGE_HEAD =
     ''<!DOCTYPE html>'' @ [CHR 0x0A] @ ''<html lang='' @ [CHR 0x22] @ ''ko'' @ [CHR 0x22] @
     ''>'' @ [CHR 0x0A] @ ''<head><meta charset='' @ [CHR 0x22] @ ''UTF-8'' @ [CHR 0x22] @
     ''><title>'' @ [CHR 0xEC, CHR 0xA0, CHR 0x91, CHR 0xEC, CHR 0x86, CHR 0x8D] @ '' '' @
     [CHR 0xEB, CHR 0xB6, CHR 0x88, CHR 0xEA, CHR 0xB0, CHR 0x80] @ ''</title></head>'' @
     [CHR 0x0A] @ ''<body style='' @ [CHR 0x22] @
     ''font-family:sans-serif;max-width:560px;margin:3rem auto;padding:2rem;t'' @
     ''ext-align:center;'' @ [CHR 0x22] @ ''>'' @ [CHR 0x0A] @ ''  <h1 style='' @
     [CHR 0x22] @ ''color:#dc2626;'' @ [CHR 0x22] @ ''>'' @
     [CHR 0xEC, CHR 0xA0, CHR 0x91, CHR 0xEC, CHR 0x86, CHR 0x8D] @ '' '' @
     [CHR 0xEB, CHR 0xB6, CHR 0x88, CHR 0xEA, CHR 0xB0, CHR 0x80] @ ''</h1>'' @ [CHR 0x0A] @
     ''  <p>DB'' @ [CHR 0xEA, CHR 0xB0, CHR 0x80] @ '' '' @
     [CHR 0xEC, CHR 0x84, CHR 0xA4, CHR 0xEC, CHR 0xA0, CHR 0x95, CHR 0xEB, CHR 0x90] @
     [CHR 0x98, CHR 0xEC, CHR 0xA7, CHR 0x80] @ '' '' @
     [CHR 0xEC, CHR 0x95, CHR 0x8A, CHR 0xEC, CHR 0x95, CHR 0x98, CHR 0xEA, CHR 0xB1] @
     [CHR 0xB0, CHR 0xEB, CHR 0x82, CHR 0x98] @ '' '' @
     [CHR 0xEC, CHR 0x97, CHR 0xB0, CHR 0xEA, CHR 0xB2, CHR 0xB0, CHR 0xEB, CHR 0x90] @
     [CHR 0x98, CHR 0xEC, CHR 0xA7, CHR 0x80] @ '' '' @
     [CHR 0xEC, CHR 0x95, CHR 0x8A, CHR 0xEC, CHR 0x95, CHR 0x84] @ '' '' @
     [CHR 0xEC, CHR 0x84, CHR 0x9C, CHR 0xEB, CHR 0xB9, CHR 0x84, CHR 0xEC, CHR 0x8A] @
     [CHR 0xA4, CHR 0xEB, CHR 0xA5, CHR 0xBC] @ '' '' @
     [CHR 0xEC, CHR 0x9D, CHR 0xB4, CHR 0xEC, CHR 0x9A, CHR 0xA9, CHR 0xED, CHR 0x95] @
     [CHR 0xA0] @ '' '' @ [CHR 0xEC, CHR 0x88, CHR 0x98] @ '' '' @
     [CHR 0xEC, CHR 0x97, CHR 0x86, CHR 0xEC, CHR 0x8A, CHR 0xB5, CHR 0xEB, CHR 0x8B] @
     [CHR 0x88, CHR 0xEB, CHR 0x8B, CHR 0xA4] @ ''.</p>'' @ [CHR 0x0A] @ ''  <p style='' @
     [CHR 0x22] @ ''color:#64748b;font-size:0.9rem;'' @ [CHR 0x22] @
     ''>DB_TYPE, DB_HOST, DB_NAME '' @ [CHR 0xEB, CHR 0x93, CHR 0xB1] @ '' '' @
     [CHR 0xED, CHR 0x99, CHR 0x98, CHR 0xEA, CHR 0xB2, CHR 0xBD] @ '' '' @
     [CHR 0xEB, CHR 0xB3, CHR 0x80, CHR 0xEC, CHR 0x88, CHR 0x98, CHR 0xEB, CHR 0xA5] @
     [CHR 0xBC] @ '' '' @
     [CHR 0xEC, CHR 0x84, CHR 0xA4, CHR 0xEC, CHR 0xA0, CHR 0x95, CHR 0xED, CHR 0x95] @
     [CHR 0x98, CHR 0xEA, CHR 0xB3, CHR 0xA0] @ '' DB '' @
     [CHR 0xEC, CHR 0x84, CHR 0x9C, CHR 0xEB, CHR 0xB2, CHR 0x84, CHR 0xEA, CHR 0xB0] @
     [CHR 0x80] @ '' '' @ [CHR 0xEB, CHR 0x8F, CHR 0x99, CHR 0xEC, CHR 0x9E, CHR 0x91] @
     '' '' @
     [CHR 0xEC, CHR 0xA4, CHR 0x91, CHR 0xEC, CHR 0x9D, CHR 0xB8, CHR 0xEC, CHR 0xA7] @
     [CHR 0x80] @ '' '' @
     [CHR 0xED, CHR 0x99, CHR 0x95, CHR 0xEC, CHR 0x9D, CHR 0xB8, CHR 0xED, CHR 0x95] @
     [CHR 0x98, CHR 0xEC, CHR 0x84, CHR 0xB8, CHR 0xEC, CHR 0x9A, CHR 0x94] @ ''. ('' @
     [CHR 0xEB, CHR 0xB3, CHR 0x80, CHR 0xEC, CHR 0x88, CHR 0x98, CHR 0xC2, CHR 0xB7] @
     [CHR 0xEB, CHR 0xA9, CHR 0x94, CHR 0xEB, CHR 0xAA, CHR 0xA8, CHR 0xEB, CHR 0xA6] @
     [CHR 0xAC] @ '' DB'' @ [CHR 0xEB, CHR 0x8A, CHR 0x94] @ '' '' @
     [CHR 0xEC, CHR 0x82, CHR 0xAC, CHR 0xEC, CHR 0x9A, CHR 0xA9, CHR 0xED, CHR 0x95] @
     [CHR 0x98, CHR 0xEC, CHR 0xA7, CHR 0x80] @ '' '' @
     [CHR 0xEC, CHR 0x95, CHR 0x8A, CHR 0xEC, CHR 0x8A, CHR 0xB5, CHR 0xEB, CHR 0x8B] @
     [CHR 0x88, CHR 0xEB, CHR 0x8B, CHR 0xA4] @ ''.)</p>'' @ [CHR 0x0A] @ ''  <p style='' @
     [CHR 0x22] @ ''margin-top:1.5rem;font-size:0.9rem;color:#333;'' @ [CHR 0x22] @ ''>'' @
     [CHR 0xED, CHR 0x98, CHR 0x84, CHR 0xEC, CHR 0x9E, CHR 0xAC] @ '' '' @
     [CHR 0xEC, CHR 0x84, CHR 0xA4, CHR 0xEC, CHR 0xA0, CHR 0x95, CHR 0xEB, CHR 0x90] @
     [CHR 0x9C] @ '' '' @ [CHR 0xED, CHR 0x99, CHR 0x98, CHR 0xEA, CHR 0xB2, CHR 0xBD] @
     '' '' @ [CHR 0xEB, CHR 0xB3, CHR 0x80, CHR 0xEC, CHR 0x88, CHR 0x98] @ ''</p>'' @
     [CHR 0x0A] @ ''  ''"

definition PAGE_MID :: string where
  \<comment> \<open>between the table and the log block\<close>
  "PAGE_MID =
     [CHR 0x0A] @ ''  <p style='' @ [CHR 0x22] @
     ''margin-top:1.5rem;font-size:0.9rem;color:#333;'' @ [CHR 0x22] @ ''>'' @
     [CHR 0xEC, CHR 0x97, CHR 0xB0, CHR 0xEA, CHR 0xB2, CHR 0xB0] @ '' '' @
     [CHR 0xEA, CHR 0xB3, CHR 0xBC, CHR 0xEC, CHR 0xA0, CHR 0x95] @ '' / '' @
     [CHR 0xEB, CHR 0x94, CHR 0x94, CHR 0xEB, CHR 0xB2, CHR 0x84, CHR 0xEA, CHR 0xB7] @
     [CHR 0xB8] @ '' '' @ [CHR 0xEB, CHR 0xA1, CHR 0x9C, CHR 0xEA, CHR 0xB7, CHR 0xB8] @
     ''</p>'' @ [CHR 0x0A] @ ''  ''"

definition PAGE_TAIL :: string where
  "PAGE_TAIL =
     [CHR 0x0A] @ ''</body>'' @ [CHR 0x0A] @ ''</html>''"

definition display :: "string option \<Rightarrow> string" where
  \<comment> \<open>\<^verbatim>\<open>str(v) if (v is not None and v != "") else NOT_SET\<close>\<close>
  "display v = (case v of None \<Rightarrow> NOT_SET | Some s \<Rightarrow> if s \<noteq> [] then s else NOT_SET)"

definition get_db_env_for_display :: "config \<Rightarrow> (string \<times> string) list" where
  "get_db_env_for_display c =
     [(''PORT'', str_int (PORT c)),
      (''DB_TYPE'', display (DB_TYPE c)),
      (''DB_HOST'', display (DB_HOST c)),
      (''DB_PORT'', display (DB_PORT c)),
      (''DB_NAME'', display (DB_NAME c)),
      (''DB_USER'', display (DB_USER c)),
      (''DB_PASSWORD'',
         (case DB_PASSWORD c of
            None \<Rightarrow> NOT_SET
          | Some s \<Rightarrow> if length s > 0 then ''********'' else NOT_SET))]"

definition escape_char :: "char \<Rightarrow> string" where
  "escape_char c =
     (if c = CHR ''&'' then ''&amp;''
      else if c = CHR ''<'' then ''&lt;''
      else if c = CHR ''>'' then ''&gt;''
      else if c = CHR 0x22 then ''&quot;''
      else if c = CHR 0x27 then ''&#x27;''
      else [c])"

definition escape_html :: "string \<Rightarrow> string" where
  \<comment> \<open>\<^verbatim>\<open>html.escape(str(s))\<close>\<close>
  "escape_html s = concat (map escape_char s)"

fun str_join :: "string \<Rightarrow> string list \<Rightarrow> string" where
  \<comment> \<open>\<^verbatim>\<open>sep.join(xs)\<close>\<close>
  "str_join sep [] = []"
| "str_join sep [x] = x"
| "str_join sep (x # y # ys) = x @ sep @ str_join sep (y # ys)"

definition log_line :: "log_entry \<Rightarrow> string" where
  "log_line e =
     ''['' @ time e @ ''] '' @ (if isError e then ''ERROR: '' else []) @ escape_html (msg e)"

definition get_access_denied_html :: "config \<Rightarrow> world \<Rightarrow> string" where
  "get_access_denied_html c w =
     (let env = get_db_env_for_display c;
          rows = concat (map (\<lambda>(k, v). TR_OPEN @ escape_html k @ TD_OPEN @ escape_html v @ TR_CLOSE) env);
          table = TABLE_OPEN @ rows @ ''</table>'';
          log_entries = get_logs w;
          log_lines = (if log_entries = [] then NO_LOGS_YET
                       else str_join [CHR 0x0A] (map log_line log_entries));
          log_block = PRE_OPEN @ escape_html log_lines @ ''</pre>''
      in PAGE_HEAD @ table @ PAGE_MID @ log_block @ PAGE_TAIL)"

record request =
  path :: string
  verb :: string

record response =
  status :: nat
  body :: string
  mimetype :: string
  headers :: "(string \<times> string) list"

definition ok :: response where
  "ok = \<lparr>status = 200, body = ''OK'', mimetype = ''text/plain'', headers = []\<rparr>"

definition gateway_timeout :: response where
  "gateway_timeout =
     \<lparr>status = 504, body = ''Gateway Timeout'', mimetype = ''text/plain'', headers = []\<rparr>"

definition access_denied :: "config \<Rightarrow> world \<Rightarrow> response" where
  \<comment> \<open>the \<^verbatim>\<open>Response(get_access_denied_html(), status=200, ...)\<close> both denials return\<close>
  "access_denied c w =
     \<lparr>status = 200, body = get_access_denied_html c w, mimetype = ''text/html; charset=utf-8'',
      headers = [(''X-Service-Status'', ''unavailable'')]\<rparr>"

definition check_db_before_request :: "env \<Rightarrow> config \<Rightarrow> request \<Rightarrow> response option io" where
  "check_db_before_request E c rq =
     (if path rq \<in> {''/ok'', ''/gateway-timeout''} then io_return None
      else if \<not> is_configured c then
        io_bind (io_modify (add_log E
                   ''Access denied: DB not configured (DB_TYPE/DB_HOST/DB_NAME or DB_PORT for inference)''
                   False)) (\<lambda>_ w.
        (Inr (Some (access_denied c w)), w))
      else
        io_bind (ping E c) (\<lambda>alive.
        if \<not> alive then
          io_bind (io_modify (add_log E ''Access denied: DB ping failed'' False)) (\<lambda>_ w.
          (Inr (Some (access_denied c w)), w))
        else io_return None))"

definition handle_500 :: response where
  \<comment> \<open>\<^verbatim>\<open>{"error": "Internal Server Error"}, 500\<close> as the framework serialises it\<close>
  "handle_500 =
     \<lparr>status = 500, body = (''{'' @ [CHR 0x22] @ ''error'' @ [CHR 0x22] @ '':'' @ [CHR 0x22] @ ''Internal Server Error'' @ [CHR 0x22] @ ''}'' @ [CHR 0x0A]), mimetype = ''application/json'',
      headers = []\<rparr>"

text \<open>
  How the framework serves a request: the \<^verbatim>\<open>before_request\<close> hook runs first; a response it
  returns is the answer and no view runs. Otherwise the URL map chooses the view. The two
  liveness views are registered for \<^verbatim>\<open>GET\<close>; every other rule and the framework's own
  answers (a wrong verb, an unknown path) are \<open>Passed_on\<close>.
\<close>

datatype outcome =
    From_gate response
  | From_view response
  | From_errorhandler response
  | Passed_on

definition dispatch_request :: "request \<Rightarrow> outcome" where
  "dispatch_request rq =
     (if path rq = ''/ok'' \<and> verb rq = ''GET'' then From_view ok
      else if path rq = ''/gateway-timeout'' \<and> verb rq = ''GET'' then From_view gateway_timeout
      else Passed_on)"

definition full_dispatch_request :: "env \<Rightarrow> config \<Rightarrow> request \<Rightarrow> world \<Rightarrow> outcome \<times> world" where
  "full_dispatch_request E c rq w =
     (case check_db_before_request E c rq w of
        (Inl e, w') \<Rightarrow> (From_errorhandler handle_500, w')
      | (Inr (Some r), w') \<Rightarrow> (From_gate r, w')
      | (Inr None, w') \<Rightarrow> (dispatch_request rq, w'))"

definition startup :: "pydict list \<Rightarrow> world" where
  \<comment> \<open>the state once the modules are imported, with the store holding \<open>col\<close>\<close>
  "startup col =
     \<lparr>logs = [], stdout = [], clock = 0, ping_ok_logged = False, pg_pool = False,
      mongo_client = False, mongo_db = False, trace = [], items = col\<rparr>"

definition main :: "env \<Rightarrow> config \<Rightarrow> world \<Rightarrow> world" where
  \<comment> \<open>the part of \<^verbatim>\<open>main()\<close> before the server starts\<close>
  "main E c w =
     (let db_type = get_db_type c;
          configured = is_configured c
      in add_log E (''Config check: dbType='' @ (if truthy_str db_type then the db_type else ''(none)'') @
                    '', configured='' @ (if configured then ''True'' else ''False'')) False w)"

section \<open>Runs and sample inputs\<close>

text \<open>
  Definitions used to state properties of whole runs, and closed inputs on which the
  theorems below are instantiated.
\<close>

definition entry_at :: "env \<Rightarrow> nat \<Rightarrow> string \<Rightarrow> bool \<Rightarrow> log_entry" where
  \<comment> \<open>the entry \<open>add_log\<close> builds when the clock has been read \<open>k\<close> times before\<close>
  "entry_at E k m b = \<lparr>time = log_time (utcnow E k), msg = m, isError = b\<rparr>"

definition add_logs :: "env \<Rightarrow> (string \<times> bool) list \<Rightarrow> world \<Rightarrow> world" where
  \<comment> \<open>a sequence of appends, first to last\<close>
  "add_logs E ms w = fold (\<lambda>(m, b). add_log E m b) ms w"

definition entries_from :: "env \<Rightarrow> nat \<Rightarrow> (string \<times> bool) list \<Rightarrow> log_entry list" where
  \<comment> \<open>the entries of a sequence of appends that starts at clock reading \<open>k\<close>\<close>
  "entries_from E k ms = map (\<lambda>(i, (m, b)). entry_at E i m b) (enumerate k ms)"


definition quiet_env :: env where
  \<comment> \<open>no driver call raises, no query returns a row\<close>
  "quiet_env =
     \<lparr>raises = (\<lambda>t c. None), fetched_rows = (\<lambda>t. []), fetched_row = (\<lambda>t. None),
      description = (\<lambda>t. []), lastrowid = (\<lambda>t. PNone), collection_names = (\<lambda>t. []),
      utcnow = (\<lambda>n. \<lparr>year = 2024, month = 1, day = 1, hour = 0, minute = 0, second = n mod 60,
                      microsecond = 0, utcoffset = None\<rparr>)\<rparr>"

chapter \<open>Properties\<close>

section \<open>Backend type resolution and configuration\<close>







section \<open>The diagnostic log\<close>

lemma log_time_naive: "log_time (d\<lparr>utcoffset := x\<rparr>) = log_time d"
  by (simp add: log_time_def)

lemma logs_add_log:
  "logs (add_log E m b w) =
     drop (length (logs w @ [entry_at E (clock w) m b]) - MAX_LOGS)
       (logs w @ [entry_at E (clock w) m b])"
  by (simp add: add_log_def read_clock_def entry_at_def log_time_naive Let_def)

lemma clock_add_log: "clock (add_log E m b w) = Suc (clock w)"
  by (simp add: add_log_def read_clock_def Let_def)

lemma length_logs_add_log: "length (logs (add_log E m b w)) \<le> MAX_LOGS"
  by (simp add: logs_add_log)

lemma drop_window:
  fixes A R :: "'a list"
  shows "drop (length (drop (length A - n) A @ R) - n) (drop (length A - n) A @ R) =
         drop (length (A @ R) - n) (A @ R)"
proof (cases "length A \<le> n")
  case True
  then show ?thesis by simp
next
  case False
  then have "length (drop (length A - n) A) = n" by simp
  then show ?thesis using False by (simp add: add.commute)
qed

lemma logs_add_logs:
  "length (logs w) \<le> MAX_LOGS \<Longrightarrow>
   logs (add_logs E ms w) =
     drop (length (logs w @ entries_from E (clock w) ms) - MAX_LOGS)
       (logs w @ entries_from E (clock w) ms)"
proof (induction ms arbitrary: w)
  case Nil
  then show ?case by (simp add: add_logs_def entries_from_def)
next
  case (Cons x ms)
  obtain m b where x: "x = (m, b)" by (cases x)
  let ?e = "entry_at E (clock w) m b"
  let ?A = "logs w @ [?e]"
  let ?w1 = "add_log E m b w"
  let ?R = "entries_from E (Suc (clock w)) ms"
  have step: "add_logs E (x # ms) w = add_logs E ms ?w1"
    by (simp add: add_logs_def x)
  have "logs (add_logs E ms ?w1) =
          drop (length (logs ?w1 @ ?R) - MAX_LOGS) (logs ?w1 @ ?R)"
    using Cons.IH[of ?w1] by (simp add: length_logs_add_log clock_add_log)
  also have "\<dots> = drop (length (?A @ ?R) - MAX_LOGS) (?A @ ?R)"
    unfolding logs_add_log by (rule drop_window)
  also have "?A @ ?R = logs w @ entries_from E (clock w) (x # ms)"
    by (simp add: entries_from_def x)
  finally show ?case by (simp only: step)
qed

text \<open>
  \<^bold>\<open>C6\<close> The diagnostic log never holds more than 100 entries. An append to a log of fewer
  than 100 entries adds the new entry at the end; an append to a full log (the 101st)
  drops the first, oldest, entry and keeps the others in their order, with the new entry
  last. After any sequence of appends to the empty log, the log is the last 100 entries of
  the sequence (all of them when there are fewer), in the order they were appended.
\<close>

theorem diagnostic_log_bounded:
  "length (logs (add_log E m b w)) \<le> 100 \<and>
   (length (logs w) = 100 \<longrightarrow>
      logs (add_log E m b w) = tl (logs w) @ [entry_at E (clock w) m b]) \<and>
   (length (logs w) < 100 \<longrightarrow>
      logs (add_log E m b w) = logs w @ [entry_at E (clock w) m b]) \<and>
   (logs w = [] \<longrightarrow>
      logs (add_logs E ms w) = drop (length ms - 100) (entries_from E (clock w) ms) \<and>
      length (logs (add_logs E ms w)) = min (length ms) 100)"
proof -
  have a: "length (logs (add_log E m b w)) \<le> 100"
    using length_logs_add_log[of E m b w] by (simp add: MAX_LOGS_def)
  have b: "logs (add_log E m b w) = tl (logs w) @ [entry_at E (clock w) m b]"
    if "length (logs w) = 100"
    using that by (cases "logs w") (simp_all add: logs_add_log MAX_LOGS_def)
  have c: "logs (add_log E m b w) = logs w @ [entry_at E (clock w) m b]"
    if "length (logs w) < 100"
    using that by (simp add: logs_add_log MAX_LOGS_def)
  have d: "logs (add_logs E ms w) = drop (length ms - 100) (entries_from E (clock w) ms)"
    if "logs w = []"
    using logs_add_logs[of w E ms] that by (simp add: MAX_LOGS_def entries_from_def)
  have e: "length (logs (add_logs E ms w)) = min (length ms) 100" if "logs w = []"
    using d[OF that] by (simp add: entries_from_def)
  from a b c d e show ?thesis by blast
qed

theorem diagnostic_log_bounded_witness:
  "length (logs (add_logs quiet_env (replicate 100 (''boot'', False)) (startup []))) = 100 \<and>
   logs (add_log quiet_env ''late'' True
           (add_logs quiet_env (replicate 100 (''boot'', False)) (startup []))) =
     tl (logs (add_logs quiet_env (replicate 100 (''boot'', False)) (startup []))) @
     [entry_at quiet_env (clock (add_logs quiet_env (replicate 100 (''boot'', False)) (startup [])))
        ''late'' True] \<and>
   logs (add_log quiet_env ''first'' False (startup [])) = [entry_at quiet_env 0 ''first'' False]"
proof -
  let ?w = "add_logs quiet_env (replicate 100 (''boot'', False)) (startup [])"
  have h: "logs (startup []) = []" by (simp add: startup_def)
  have full: "length (logs ?w) = 100"
    using diagnostic_log_bounded[of quiet_env "''boot''" False "startup []"
            "replicate 100 (''boot'', False)"] h
    by (simp add: entries_from_def)
  have evict: "logs (add_log quiet_env ''late'' True ?w) =
                 tl (logs ?w) @ [entry_at quiet_env (clock ?w) ''late'' True]"
    using diagnostic_log_bounded[of quiet_env "''late''" True ?w "[]"] full by blast
  have first: "logs (add_log quiet_env ''first'' False (startup [])) =
                 [entry_at quiet_env 0 ''first'' False]"
    using diagnostic_log_bounded[of quiet_env "''first''" False "startup []" "[]"]
    by (simp add: startup_def)
  from full evict first show ?thesis by blast
qed

end
